theory Spec2Isabelle
  imports Complex_Main
begin

section \<open>Data model of the dashboard front end\<close>

text \<open>
  The front end keeps its state in two Pinia stores (\<^verbatim>\<open>stores/projects.js\<close>,
  \<^verbatim>\<open>stores/notification.js\<close>), in the refs of the composable
  \<^verbatim>\<open>composables/useWebSocket.js\<close> and in the refs of the LLM call panel.
  Each JavaScript object becomes a record, each ref a field of a state record, and each
  function that mutates refs a function from the old state to the new one. Field names
  carry a prefix for their record, since a record field is a global constant.

  JavaScript numbers are only stored and compared by the modelled code, so they are
  reals here. A field that the source tests for absence (\<^verbatim>\<open>x || d\<close>,
  \<^verbatim>\<open>x !== undefined\<close>, \<^verbatim>\<open>if (x)\<close>) is an option, \<open>None\<close> standing for
  \<^verbatim>\<open>undefined\<close>.
\<close>

type_synonym number = real

text \<open>A JSON value that the code only passes on, kept as its text.\<close>

type_synonym json = string

record employee =
  e_name :: string
  e_profile :: string
  e_is_idle :: bool
  e_current_action :: string

record project =
  p_id :: string
  p_name :: string
  p_idea :: string
  p_investment :: number
  p_n_round :: int
  p_status :: string
  p_total_cost :: number
  p_employees :: "employee list option"
  p_output_path :: "string option"

record message =
  m_type :: "string option"
  m_content :: string
  m_sent_from :: string
  m_timestamp :: string

record thinking_log =
  t_agent_name :: string
  t_action :: string
  t_content :: string
  t_type :: string
  t_id :: number
  t_timestamp :: string

record llm_call =
  c_agent_name :: string
  c_model :: string
  c_prompt :: string
  c_response :: string
  c_cost :: number
  c_tokens :: json
  c_id :: number
  c_timestamp :: string

record tool_usage =
  u_agent_name :: string
  u_tool_name :: string
  u_args :: json
  u_result :: "string option"
  u_id :: number
  u_timestamp :: string

text \<open>The refs of \<^verbatim>\<open>useProjectStore\<close>.\<close>

record store =
  projects :: "project list"
  currentProjectId :: "string option"
  currentProject :: "project option"
  loading :: bool
  messages :: "message list"
  thinkingLogs :: "thinking_log list"
  llmCalls :: "llm_call list"
  toolUsages :: "tool_usage list"

text \<open>
  What a handler reads from the outside when it runs: \<^verbatim>\<open>new Date().toISOString()\<close>,
  \<^verbatim>\<open>Date.now()\<close> and \<^verbatim>\<open>Math.random()\<close>.
\<close>

record env =
  now_iso :: string
  now_ms :: number
  random :: number

section \<open>Strings of the source\<close>

text \<open>
  The literals of the source that are not ASCII, as their UTF-8 bytes. In source order:
  the failure and success texts of the project actions, and the pieces of the thinking
  entry synthesised for a tool usage.
\<close>

definition msg_fetchProjects_failed :: string where
  "msg_fetchProjects_failed = [CHR 0xE5, CHR 0x8A, CHR 0xA0, CHR 0xE8, CHR 0xBD, CHR 0xBD,
     CHR 0xE9, CHR 0xA1, CHR 0xB9, CHR 0xE7, CHR 0x9B, CHR 0xAE, CHR 0xE5, CHR 0x88, CHR 0x97,
     CHR 0xE8, CHR 0xA1, CHR 0xA8, CHR 0xE5, CHR 0xA4, CHR 0xB1, CHR 0xE8, CHR 0xB4, CHR 0xA5]"

definition msg_fetchProject_failed :: string where
  "msg_fetchProject_failed = [CHR 0xE5, CHR 0x8A, CHR 0xA0, CHR 0xE8, CHR 0xBD, CHR 0xBD,
     CHR 0xE9, CHR 0xA1, CHR 0xB9, CHR 0xE7, CHR 0x9B, CHR 0xAE, CHR 0xE8, CHR 0xAF, CHR 0xA6,
     CHR 0xE6, CHR 0x83, CHR 0x85, CHR 0xE5, CHR 0xA4, CHR 0xB1, CHR 0xE8, CHR 0xB4, CHR 0xA5]"

definition msg_createProject_ok :: string where
  "msg_createProject_ok = [CHR 0xE9, CHR 0xA1, CHR 0xB9, CHR 0xE7, CHR 0x9B, CHR 0xAE,
     CHR 0xE5, CHR 0x88, CHR 0x9B, CHR 0xE5, CHR 0xBB, CHR 0xBA, CHR 0xE6, CHR 0x88, CHR 0x90,
     CHR 0xE5, CHR 0x8A, CHR 0x9F, CHR 0xEF, CHR 0xBC, CHR 0x81]"

definition msg_createProject_failed :: string where
  "msg_createProject_failed = [CHR 0xE5, CHR 0x88, CHR 0x9B, CHR 0xE5, CHR 0xBB, CHR 0xBA,
     CHR 0xE9, CHR 0xA1, CHR 0xB9, CHR 0xE7, CHR 0x9B, CHR 0xAE, CHR 0xE5, CHR 0xA4, CHR 0xB1,
     CHR 0xE8, CHR 0xB4, CHR 0xA5]"

definition msg_updateProject_failed :: string where
  "msg_updateProject_failed = [CHR 0xE6, CHR 0x9B, CHR 0xB4, CHR 0xE6, CHR 0x96, CHR 0xB0,
     CHR 0xE9, CHR 0xA1, CHR 0xB9, CHR 0xE7, CHR 0x9B, CHR 0xAE, CHR 0xE5, CHR 0xA4, CHR 0xB1,
     CHR 0xE8, CHR 0xB4, CHR 0xA5]"

definition msg_deleteProject_ok :: string where
  "msg_deleteProject_ok = [CHR 0xE9, CHR 0xA1, CHR 0xB9, CHR 0xE7, CHR 0x9B, CHR 0xAE,
     CHR 0xE5, CHR 0xB7, CHR 0xB2, CHR 0xE5, CHR 0x88, CHR 0xA0, CHR 0xE9, CHR 0x99, CHR 0xA4]"

definition msg_deleteProject_failed :: string where
  "msg_deleteProject_failed = [CHR 0xE5, CHR 0x88, CHR 0xA0, CHR 0xE9, CHR 0x99, CHR 0xA4,
     CHR 0xE9, CHR 0xA1, CHR 0xB9, CHR 0xE7, CHR 0x9B, CHR 0xAE, CHR 0xE5, CHR 0xA4, CHR 0xB1,
     CHR 0xE8, CHR 0xB4, CHR 0xA5]"

definition msg_startProject_ok :: string where
  "msg_startProject_ok = [CHR 0xE9, CHR 0xA1, CHR 0xB9, CHR 0xE7, CHR 0x9B, CHR 0xAE,
     CHR 0xE5, CHR 0xBC, CHR 0x80, CHR 0xE5, CHR 0xA7, CHR 0x8B, CHR 0xE8, CHR 0xBF, CHR 0x90,
     CHR 0xE8, CHR 0xA1, CHR 0x8C, CHR 0xEF, CHR 0xBC, CHR 0x81]"

definition msg_startProject_failed :: string where
  "msg_startProject_failed = [CHR 0xE5, CHR 0x90, CHR 0xAF, CHR 0xE5, CHR 0x8A, CHR 0xA8,
     CHR 0xE9, CHR 0xA1, CHR 0xB9, CHR 0xE7, CHR 0x9B, CHR 0xAE, CHR 0xE5, CHR 0xA4, CHR 0xB1,
     CHR 0xE8, CHR 0xB4, CHR 0xA5]"

definition msg_stopProject_ok :: string where
  "msg_stopProject_ok = [CHR 0xE9, CHR 0xA1, CHR 0xB9, CHR 0xE7, CHR 0x9B, CHR 0xAE,
     CHR 0xE5, CHR 0xB7, CHR 0xB2, CHR 0xE5, CHR 0x81, CHR 0x9C, CHR 0xE6, CHR 0xAD, CHR 0xA2]"

definition msg_stopProject_failed :: string where
  "msg_stopProject_failed = [CHR 0xE5, CHR 0x81, CHR 0x9C, CHR 0xE6, CHR 0xAD, CHR 0xA2,
     CHR 0xE9, CHR 0xA1, CHR 0xB9, CHR 0xE7, CHR 0x9B, CHR 0xAE, CHR 0xE5, CHR 0xA4, CHR 0xB1,
     CHR 0xE8, CHR 0xB4, CHR 0xA5]"

definition tool_action_prefix :: string where
  "tool_action_prefix = [CHR 0xF0, CHR 0x9F, CHR 0x94, CHR 0xA7, CHR 0x20]"

definition tool_content_call :: string where
  "tool_content_call = [CHR 0xE8, CHR 0xB0, CHR 0x83, CHR 0xE7, CHR 0x94, CHR 0xA8,
     CHR 0xE5, CHR 0xB7, CHR 0xA5, CHR 0xE5, CHR 0x85, CHR 0xB7, CHR 0x3A, CHR 0x20]"

definition tool_content_args :: string where
  "tool_content_args = [CHR 0x0A, CHR 0xE5, CHR 0x8F, CHR 0x82, CHR 0xE6, CHR 0x95, CHR 0xB0,
     CHR 0x3A, CHR 0x20]"

definition tool_content_result :: string where
  "tool_content_result = [CHR 0x0A, CHR 0xE7, CHR 0xBB, CHR 0x93, CHR 0xE6, CHR 0x9E, CHR 0x9C,
     CHR 0x3A, CHR 0x20]"

definition tool_content_running :: string where
  "tool_content_running = [CHR 0xE6, CHR 0x89, CHR 0xA7, CHR 0xE8, CHR 0xA1, CHR 0x8C,
     CHR 0xE4, CHR 0xB8, CHR 0xAD, CHR 0x2E, CHR 0x2E, CHR 0x2E]"

text \<open>
  \<^verbatim>\<open>x || d\<close> on an optional string: the default replaces an absent and an empty
  string alike, both being falsy.
\<close>

definition or_else :: "string option \<Rightarrow> string \<Rightarrow> string" where
  "or_else x d = (case x of None \<Rightarrow> d | Some v \<Rightarrow> if v = [] then d else v)"

text \<open>\<^verbatim>\<open>String(n)\<close> of an integer: its decimal digits, with a sign when negative.\<close>

fun digits :: "nat \<Rightarrow> string" where
  "digits n = (if n < 10 then [char_of (48 + n)]
               else digits (n div 10) @ [char_of (48 + n mod 10)])"

declare digits.simps [simp del]

definition String_of :: "int \<Rightarrow> string" where
  "String_of i = (if i < 0 then CHR ''-'' # digits (nat (- i)) else digits (nat i))"

text \<open>\<^verbatim>\<open>s.padStart(n, c)\<close> with a pad string of one character.\<close>

definition padStart :: "nat \<Rightarrow> char \<Rightarrow> string \<Rightarrow> string" where
  "padStart n c s = replicate (n - length s) c @ s"

section \<open>The project store: mutations used by the event router\<close>

text \<open>
  \<^verbatim>\<open>const x = xs.find(P); if (x) { x.f = v }\<close>: the found element is changed where it
  stands in the array, and nothing happens when there is none.
\<close>

fun update_first :: "('a \<Rightarrow> bool) \<Rightarrow> ('a \<Rightarrow> 'a) \<Rightarrow> 'a list \<Rightarrow> 'a list" where
  "update_first P f [] = []"
| "update_first P f (x # xs) = (if P x then f x # xs else x # update_first P f xs)"

record message_in =
  mi_type :: "string option"
  mi_content :: string
  mi_sent_from :: string
  mi_timestamp :: "string option"

definition addMessage :: "env \<Rightarrow> message_in \<Rightarrow> store \<Rightarrow> store" where
  "addMessage ev msg s = s\<lparr>messages := messages s @
     [\<lparr>m_type = mi_type msg, m_content = mi_content msg, m_sent_from = mi_sent_from msg,
       m_timestamp = or_else (mi_timestamp msg) (now_iso ev)\<rparr>]\<rparr>"

record thinking_in =
  ti_agent_name :: string
  ti_action :: string
  ti_content :: string
  ti_type :: string
  ti_timestamp :: "string option"

definition addThinking :: "env \<Rightarrow> thinking_in \<Rightarrow> store \<Rightarrow> store" where
  "addThinking ev entry s = s\<lparr>thinkingLogs := thinkingLogs s @
     [\<lparr>t_agent_name = ti_agent_name entry, t_action = ti_action entry,
       t_content = ti_content entry, t_type = ti_type entry, t_id = now_ms ev + random ev,
       t_timestamp = or_else (ti_timestamp entry) (now_iso ev)\<rparr>]\<rparr>"

record llm_call_in =
  ci_agent_name :: string
  ci_model :: string
  ci_prompt :: string
  ci_response :: string
  ci_cost :: number
  ci_tokens :: json
  ci_timestamp :: "string option"

definition addLLMCall :: "env \<Rightarrow> llm_call_in \<Rightarrow> store \<Rightarrow> store" where
  "addLLMCall ev call s = s\<lparr>llmCalls := llmCalls s @
     [\<lparr>c_agent_name = ci_agent_name call, c_model = ci_model call, c_prompt = ci_prompt call,
       c_response = ci_response call, c_cost = ci_cost call, c_tokens = ci_tokens call,
       c_id = now_ms ev + random ev,
       c_timestamp = or_else (ci_timestamp call) (now_iso ev)\<rparr>]\<rparr>"

record tool_usage_in =
  ui_agent_name :: string
  ui_tool_name :: string
  ui_args :: json
  ui_result :: "string option"
  ui_timestamp :: "string option"

text \<open>
  \<^verbatim>\<open>addToolUsage\<close> reads the clock twice, once for its own record and once inside
  \<^verbatim>\<open>addThinking\<close>. \<open>stringify\<close> stands for \<^verbatim>\<open>JSON.stringify(_, null, 2)\<close>.
\<close>

definition addToolUsage ::
  "(json \<Rightarrow> string) \<Rightarrow> env \<Rightarrow> env \<Rightarrow> tool_usage_in \<Rightarrow> store \<Rightarrow> store" where
  "addToolUsage stringify ev ev' usage s =
     addThinking ev'
       \<lparr>ti_agent_name = ui_agent_name usage,
        ti_action = tool_action_prefix @ ui_tool_name usage,
        ti_content = tool_content_call @ ui_tool_name usage @ tool_content_args @
                     stringify (ui_args usage) @ tool_content_result @
                     or_else (ui_result usage) tool_content_running,
        ti_type = ''tool'', ti_timestamp = None\<rparr>
       (s\<lparr>toolUsages := toolUsages s @
          [\<lparr>u_agent_name = ui_agent_name usage, u_tool_name = ui_tool_name usage,
            u_args = ui_args usage, u_result = ui_result usage,
            u_id = now_ms ev + random ev,
            u_timestamp = or_else (ui_timestamp usage) (now_iso ev)\<rparr>]\<rparr>)"

definition updateEmployees :: "employee list option \<Rightarrow> store \<Rightarrow> store" where
  "updateEmployees employees s =
     (case currentProject s of
        None \<Rightarrow> s
      | Some p \<Rightarrow> s\<lparr>currentProject := Some (p\<lparr>p_employees := employees\<rparr>)\<rparr>)"

definition updateStatus :: "string \<Rightarrow> store \<Rightarrow> store" where
  "updateStatus status s =
     (let s1 = (case currentProject s of
                  None \<Rightarrow> s
                | Some p \<Rightarrow> s\<lparr>currentProject := Some (p\<lparr>p_status := status\<rparr>)\<rparr>)
      in s1\<lparr>projects := update_first (\<lambda>p. Some (p_id p) = currentProjectId s1)
                            (\<lambda>p. p\<lparr>p_status := status\<rparr>) (projects s1)\<rparr>)"

definition updateCost :: "number \<Rightarrow> store \<Rightarrow> store" where
  "updateCost cost s =
     (let s1 = (case currentProject s of
                  None \<Rightarrow> s
                | Some p \<Rightarrow> s\<lparr>currentProject := Some (p\<lparr>p_total_cost := cost\<rparr>)\<rparr>)
      in s1\<lparr>projects := update_first (\<lambda>p. Some (p_id p) = currentProjectId s1)
                            (\<lambda>p. p\<lparr>p_total_cost := cost\<rparr>) (projects s1)\<rparr>)"

record agent_status_in =
  ai_agent_name :: string
  ai_status :: string
  ai_action :: "string option"

definition updateEmployeeStatus :: "agent_status_in \<Rightarrow> store \<Rightarrow> store" where
  "updateEmployeeStatus data s =
     (case currentProject s of
        None \<Rightarrow> s
      | Some p \<Rightarrow>
         (case p_employees p of
            None \<Rightarrow> s
          | Some es \<Rightarrow>
             s\<lparr>currentProject := Some (p\<lparr>p_employees := Some
                  (update_first (\<lambda>e. e_name e = ai_agent_name data)
                     (\<lambda>e. e\<lparr>e_is_idle := (ai_status data = ''idle''),
                            e_current_action := or_else (ai_action data) []\<rparr>) es)\<rparr>)\<rparr>))"

definition clearMessages :: "store \<Rightarrow> store" where
  "clearMessages s = s\<lparr>messages := [], thinkingLogs := [], llmCalls := [], toolUsages := []\<rparr>"

definition reset :: "store \<Rightarrow> store" where
  "reset s = s\<lparr>currentProject := None, currentProjectId := None, messages := [],
               thinkingLogs := [], llmCalls := [], toolUsages := []\<rparr>"

section \<open>The event router\<close>

text \<open>
  A parsed frame, by its \<^verbatim>\<open>type\<close> tag, with the fields that \<^verbatim>\<open>handleMessage\<close>
  reads. \<open>Unknown\<close> carries any other tag.
\<close>

datatype ws_data =
    Connected "employee list option"
  | Message message_in
  | AgentStatus agent_status_in
  | Thinking thinking_in
  | LlmCall llm_call_in "number option"
  | ToolUsage tool_usage_in
  | CostUpdate "number option"
  | ProjectStatus string string "number option" "string option"
  | EmployeesUpdated "employee list option"
  | Unknown string

text \<open>A request to the REST collaborator that a handler has started and not awaited.\<close>

datatype request = GetProjects

text \<open>
  \<^verbatim>\<open>fetchProjects\<close> up to its first suspension: the loading flag is raised and the
  request is sent. What happens when the answer arrives is \<open>fetchProjects_settle\<close>,
  further down.
\<close>

definition fetchProjects_begin :: "store \<Rightarrow> store" where
  "fetchProjects_begin s = s\<lparr>loading := True\<rparr>"

text \<open>
  \<^verbatim>\<open>handleMessage(data)\<close>. \<open>clock k\<close> is the handler's \<open>k\<close>-th reading of the clock
  and of the random source. The result is the store after the synchronous part of the
  handler and the requests it has left in flight. A frame whose tag selected the
  \<^verbatim>\<open>message\<close> or \<^verbatim>\<open>thinking\<close> branch carries that tag in its \<^verbatim>\<open>type\<close> field, which
  the spread copies into the stored entry. The arguments of \<^verbatim>\<open>addLLMCall\<close> and
  \<^verbatim>\<open>addToolUsage\<close> are built field by field, without a \<^verbatim>\<open>timestamp\<close>.
\<close>

fun handleMessage ::
  "(json \<Rightarrow> string) \<Rightarrow> (nat \<Rightarrow> env) \<Rightarrow> ws_data \<Rightarrow> store \<Rightarrow> store \<times> request list" where
  "handleMessage js clock (Connected employees) s =
     (case employees of
        None \<Rightarrow> (s, [])
      | Some es \<Rightarrow> (updateEmployees (Some es) s, []))"
| "handleMessage js clock (Message msg) s =
     (addMessage (clock 0) (msg\<lparr>mi_type := Some ''message''\<rparr>) s, [])"
| "handleMessage js clock (AgentStatus data) s = (updateEmployeeStatus data s, [])"
| "handleMessage js clock (Thinking entry) s =
     (addThinking (clock 0) (entry\<lparr>ti_type := ''thinking''\<rparr>) s, [])"
| "handleMessage js clock (LlmCall call total_cost) s =
     (let s1 = addLLMCall (clock 0) (call\<lparr>ci_timestamp := None\<rparr>) s
      in case total_cost of
           None \<Rightarrow> (s1, [])
         | Some c \<Rightarrow> (updateCost c s1, []))"
| "handleMessage js clock (ToolUsage usage) s =
     (addToolUsage js (clock 0) (clock 1) (usage\<lparr>ui_timestamp := None\<rparr>) s, [])"
| "handleMessage js clock (CostUpdate total_cost) s =
     (case total_cost of
        None \<Rightarrow> (s, [])
      | Some c \<Rightarrow> (updateCost c s, []))"
| "handleMessage js clock (ProjectStatus status msg total_cost output_path) s =
     (let s1 = updateStatus status s;
          s2 = addMessage (clock 0)
                 \<lparr>mi_type = Some ''system'', mi_content = msg, mi_sent_from = ''System'',
                  mi_timestamp = None\<rparr> s1;
          s3 = (case total_cost of
                  None \<Rightarrow> s2
                | Some c \<Rightarrow>
                   if status = ''completed'' then
                     (let s2' = updateCost c s2
                      in case currentProject s2' of
                           None \<Rightarrow> s2'
                         | Some p \<Rightarrow> s2'\<lparr>currentProject :=
                             Some (p\<lparr>p_output_path := Some (or_else output_path [])\<rparr>)\<rparr>)
                   else s2)
      in (fetchProjects_begin s3, [GetProjects]))"
| "handleMessage js clock (EmployeesUpdated employees) s = (updateEmployees employees s, [])"
| "handleMessage js clock (Unknown tag) s = (s, [])"



section \<open>The notification store\<close>

text \<open>
  \<^verbatim>\<open>stores/notification.js\<close>. Besides the list of notifications and the id counter of
  the source, the state holds the timers that \<^verbatim>\<open>setTimeout\<close> has registered and that
  have not fired: each with the delay it was given and the id its callback will remove.
\<close>

record notification =
  n_id :: nat
  n_message :: string
  n_type :: string
  n_timestamp :: number

record timer =
  tm_delay :: number
  tm_id :: nat

record notif_store =
  notifications :: "notification list"
  idCounter :: nat
  timers :: "timer list"

definition notif_init :: notif_store where
  "notif_init = \<lparr>notifications = [], idCounter = 0, timers = []\<rparr>"

text \<open>
  \<^verbatim>\<open>const i = xs.findIndex(P); if (i > -1) xs.splice(i, 1)\<close>: the first element that
  satisfies \<open>P\<close> is taken out, if there is one.
\<close>

fun remove_first :: "('a \<Rightarrow> bool) \<Rightarrow> 'a list \<Rightarrow> 'a list" where
  "remove_first P [] = []"
| "remove_first P (x # xs) = (if P x then xs else x # remove_first P xs)"

definition remove_notification :: "nat \<Rightarrow> notif_store \<Rightarrow> notif_store" where
  "remove_notification i n = n\<lparr>notifications := remove_first (\<lambda>x. n_id x = i) (notifications n)\<rparr>"

text \<open>
  \<^verbatim>\<open>add(message, type = 'info', duration = 4000)\<close>: an argument that is left out or
  undefined takes its default. The result is the new id and the new state.
\<close>

definition add ::
  "env \<Rightarrow> string \<Rightarrow> string option \<Rightarrow> number option \<Rightarrow> notif_store \<Rightarrow> nat \<times> notif_store" where
  "add ev msg ty duration n =
     (let ty' = (case ty of None \<Rightarrow> ''info'' | Some t \<Rightarrow> t);
          duration' = (case duration of None \<Rightarrow> 4000 | Some d \<Rightarrow> d);
          i = idCounter n + 1;
          n1 = n\<lparr>idCounter := i,
                 notifications := notifications n @
                   [\<lparr>n_id = i, n_message = msg, n_type = ty', n_timestamp = now_ms ev\<rparr>]\<rparr>;
          n2 = (if duration' > 0
                then n1\<lparr>timers := timers n1 @ [\<lparr>tm_delay = duration', tm_id = i\<rparr>]\<rparr>
                else n1)
      in (i, n2))"

definition success :: "env \<Rightarrow> string \<Rightarrow> number option \<Rightarrow> notif_store \<Rightarrow> nat \<times> notif_store" where
  "success ev msg duration n = add ev msg (Some ''success'') duration n"

definition error :: "env \<Rightarrow> string \<Rightarrow> number option \<Rightarrow> notif_store \<Rightarrow> nat \<times> notif_store" where
  "error ev msg duration n =
     add ev msg (Some ''error'') (Some (case duration of None \<Rightarrow> 6000 | Some d \<Rightarrow> d)) n"

definition warning :: "env \<Rightarrow> string \<Rightarrow> number option \<Rightarrow> notif_store \<Rightarrow> nat \<times> notif_store" where
  "warning ev msg duration n = add ev msg (Some ''warning'') duration n"

definition info :: "env \<Rightarrow> string \<Rightarrow> number option \<Rightarrow> notif_store \<Rightarrow> nat \<times> notif_store" where
  "info ev msg duration n = add ev msg (Some ''info'') duration n"

text \<open>
  The \<open>k\<close>-th pending timer fires: it leaves the timer queue and its callback calls
  \<^verbatim>\<open>remove(id)\<close>. Nothing happens when there is no such timer.
\<close>

definition fire_timer :: "nat \<Rightarrow> notif_store \<Rightarrow> notif_store" where
  "fire_timer k n =
     (if k < length (timers n)
      then remove_notification (tm_id (timers n ! k))
             (n\<lparr>timers := take k (timers n) @ drop (Suc k) (timers n)\<rparr>)
      else n)"

text \<open>
  What can happen to the notification store without the user dismissing anything: a
  notification is added, or a pending timer fires.
\<close>

datatype notif_step = Add env string "string option" "number option" | Fire nat

fun notif_run :: "notif_step list \<Rightarrow> notif_store \<Rightarrow> notif_store" where
  "notif_run [] n = n"
| "notif_run (Add ev msg ty duration # steps) n = notif_run steps (snd (add ev msg ty duration n))"
| "notif_run (Fire k # steps) n = notif_run steps (fire_timer k n)"

text \<open>No pending timer is for an id that has not been handed out yet.\<close>

definition timers_known :: "notif_store \<Rightarrow> bool" where
  "timers_known n = list_all (\<lambda>t. tm_id t \<le> idCounter n) (timers n)"

section \<open>The REST collaborator and the project actions\<close>

text \<open>
  \<^verbatim>\<open>services/api.js\<close>. What \<^verbatim>\<open>fetch\<close> gives back: a rejection (the network failed), or
  a response with its \<^verbatim>\<open>ok\<close> flag, its status, and its body. The body of a failed
  response is read as JSON for its \<^verbatim>\<open>detail\<close>: \<open>None\<close> when it does not parse,
  \<open>Some d\<close> with \<open>d\<close> the \<^verbatim>\<open>detail\<close> field (\<open>None\<close> when it has none) when it does.
  The body of a successful response is \<open>None\<close> when it does not parse.
\<close>

datatype js_error = Error string | TypeError string | SyntaxError

datatype 'a fetch_result =
    Rejected string
  | Response bool nat "string option option" "'a option"

definition request :: "'a fetch_result \<Rightarrow> js_error + 'a" where
  "request r =
     (case r of
        Rejected m \<Rightarrow> Inl (TypeError m)
      | Response ok status err body \<Rightarrow>
          if \<not> ok then
            (let detail = (case err of None \<Rightarrow> Some ''Unknown error'' | Some d \<Rightarrow> d)
             in Inl (Error (or_else detail (''HTTP '' @ String_of (int status)))))
          else (case body of None \<Rightarrow> Inl SyntaxError | Some b \<Rightarrow> Inr b))"

text \<open>
  The two stores together. An action takes the outcome of each request it awaits, in the
  order it awaits them, and returns what it throws or returns, with the new state; the
  clock readings are those of the notifications it creates.
\<close>

type_synonym app = "store \<times> notif_store"

text \<open>
  \<^verbatim>\<open>fetchProjects\<close> after its suspension: the answer replaces the list, or the failure
  is notified; the loading flag is lowered either way and nothing is thrown.
\<close>

definition fetchProjects_settle :: "env \<Rightarrow> project list fetch_result \<Rightarrow> app \<Rightarrow> app" where
  "fetchProjects_settle ev r a =
     (case request r of
        Inr ps \<Rightarrow> ((fst a)\<lparr>projects := ps, loading := False\<rparr>, snd a)
      | Inl e \<Rightarrow> ((fst a)\<lparr>loading := False\<rparr>,
                  snd (error ev msg_fetchProjects_failed None (snd a))))"

definition fetchProjects :: "env \<Rightarrow> project list fetch_result \<Rightarrow> app \<Rightarrow> app" where
  "fetchProjects ev r a = fetchProjects_settle ev r (fetchProjects_begin (fst a), snd a)"

definition fetchProject ::
  "env \<Rightarrow> string \<Rightarrow> project fetch_result \<Rightarrow> app \<Rightarrow> (js_error + unit) \<times> app" where
  "fetchProject ev pid r a =
     (let s1 = (fst a)\<lparr>loading := True\<rparr>
      in case request r of
           Inr p \<Rightarrow> (Inr (), (s1\<lparr>currentProject := Some p, currentProjectId := Some pid,
                                 loading := False\<rparr>, snd a))
         | Inl e \<Rightarrow> (Inl e, (s1\<lparr>loading := False\<rparr>,
                              snd (error ev msg_fetchProject_failed None (snd a)))))"

definition createProject ::
  "(nat \<Rightarrow> env) \<Rightarrow> project fetch_result \<Rightarrow> project list fetch_result \<Rightarrow> app \<Rightarrow>
   (js_error + project) \<times> app" where
  "createProject clock r1 r2 a =
     (case request r1 of
        Inr p \<Rightarrow>
          (let a1 = fetchProjects (clock 0) r2 a
           in (Inr p, (fst a1, snd (success (clock 1) msg_createProject_ok None (snd a1)))))
      | Inl e \<Rightarrow> (Inl e, (fst a, snd (error (clock 0) msg_createProject_failed None (snd a)))))"

definition updateProject ::
  "(nat \<Rightarrow> env) \<Rightarrow> string \<Rightarrow> json fetch_result \<Rightarrow> project fetch_result \<Rightarrow> app \<Rightarrow>
   (js_error + unit) \<times> app" where
  "updateProject clock pid r1 r2 a =
     (case request r1 of
        Inr _ \<Rightarrow>
          if currentProjectId (fst a) = Some pid then
            (case fetchProject (clock 0) pid r2 a of
               (Inr _, a1) \<Rightarrow> (Inr (), a1)
             | (Inl e, a1) \<Rightarrow>
                 (Inl e, (fst a1, snd (error (clock 1) msg_updateProject_failed None (snd a1)))))
          else (Inr (), a)
      | Inl e \<Rightarrow> (Inl e, (fst a, snd (error (clock 0) msg_updateProject_failed None (snd a)))))"

definition deleteProject ::
  "(nat \<Rightarrow> env) \<Rightarrow> string \<Rightarrow> json fetch_result \<Rightarrow> project list fetch_result \<Rightarrow> app \<Rightarrow>
   (js_error + unit) \<times> app" where
  "deleteProject clock pid r1 r2 a =
     (case request r1 of
        Inr _ \<Rightarrow>
          (let s1 = (if currentProjectId (fst a) = Some pid
                     then (fst a)\<lparr>currentProject := None, currentProjectId := None\<rparr>
                     else fst a);
               a1 = fetchProjects (clock 0) r2 (s1, snd a)
           in (Inr (), (fst a1, snd (success (clock 1) msg_deleteProject_ok None (snd a1)))))
      | Inl e \<Rightarrow> (Inl e, (fst a, snd (error (clock 0) msg_deleteProject_failed None (snd a)))))"

definition startProject ::
  "env \<Rightarrow> string \<Rightarrow> json fetch_result \<Rightarrow> app \<Rightarrow> (js_error + unit) \<times> app" where
  "startProject ev pid r a =
     (case request r of
        Inr _ \<Rightarrow> (Inr (), (fst a, snd (success ev msg_startProject_ok None (snd a))))
      | Inl e \<Rightarrow> (Inl e, (fst a, snd (error ev msg_startProject_failed None (snd a)))))"

definition stopProject ::
  "env \<Rightarrow> string \<Rightarrow> json fetch_result \<Rightarrow> app \<Rightarrow> (js_error + unit) \<times> app" where
  "stopProject ev pid r a =
     (case request r of
        Inr _ \<Rightarrow> (Inr (), (fst a, snd (warning ev msg_stopProject_ok None (snd a))))
      | Inl e \<Rightarrow> (Inl e, (fst a, snd (error ev msg_stopProject_failed None (snd a)))))"


text \<open>
  A notification that no pending timer will remove: it is in the list, no timer carries
  its id, and its id has been handed out.
\<close>

definition never_timed :: "notification \<Rightarrow> notif_store \<Rightarrow> bool" where
  "never_timed x n = (x \<in> set (notifications n)
     \<and> list_all (\<lambda>t. tm_id t \<noteq> n_id x) (timers n) \<and> n_id x \<le> idCounter n)"


section \<open>The connection manager\<close>

text \<open>
  \<^verbatim>\<open>composables/useWebSocket.js\<close>. The refs \<^verbatim>\<open>ws\<close> and \<^verbatim>\<open>isConnected\<close> are the first
  two fields. The other two stand for the browser: the sockets that \<^verbatim>\<open>new WebSocket\<close>
  has created and that neither \<^verbatim>\<open>close()\<close> nor the transport has closed, and the number
  of sockets created so far, which names the next one.
\<close>

record socket =
  sock_id :: nat
  sock_url :: string

record ws_state =
  ws :: "socket option"
  isConnected :: bool
  open_sockets :: "nat list"
  sockets_created :: nat

record location =
  loc_protocol :: string
  loc_host :: string

definition ws_init :: ws_state where
  "ws_init = \<lparr>ws = None, isConnected = False, open_sockets = [], sockets_created = 0\<rparr>"

definition disconnect :: "ws_state \<Rightarrow> ws_state" where
  "disconnect c =
     (let c1 = (case ws c of
                  None \<Rightarrow> c
                | Some sk \<Rightarrow> c\<lparr>open_sockets := removeAll (sock_id sk) (open_sockets c),
                               ws := None\<rparr>)
      in c1\<lparr>isConnected := False\<rparr>)"

definition connect :: "location \<Rightarrow> string \<Rightarrow> ws_state \<Rightarrow> ws_state" where
  "connect loc projectId c =
     (let c1 = disconnect c;
          protocol = (if loc_protocol loc = ''https:'' then ''wss:'' else ''ws:'');
          wsUrl = protocol @ ''//'' @ loc_host loc @ ''/ws/'' @ projectId;
          k = sockets_created c1
      in c1\<lparr>ws := Some \<lparr>sock_id = k, sock_url = wsUrl\<rparr>,
             open_sockets := open_sockets c1 @ [k],
             sockets_created := Suc k\<rparr>)"

text \<open>
  What happens to the manager: its two functions are called, or the transport reports on
  a socket through the callbacks that \<^verbatim>\<open>connect\<close> installed. The open callback runs
  only for a socket that is still open; the close callback runs for a socket that was
  created, which is closed from then on; the error callback only logs.
\<close>

datatype ws_event = Connect string | Disconnect | Opened nat | Closed nat | Errored nat

fun ws_step :: "location \<Rightarrow> ws_event \<Rightarrow> ws_state \<Rightarrow> ws_state" where
  "ws_step loc (Connect projectId) c = connect loc projectId c"
| "ws_step loc Disconnect c = disconnect c"
| "ws_step loc (Opened k) c = (if k \<in> set (open_sockets c) then c\<lparr>isConnected := True\<rparr> else c)"
| "ws_step loc (Closed k) c =
     (if k < sockets_created c
      then c\<lparr>open_sockets := removeAll k (open_sockets c), isConnected := False\<rparr>
      else c)"
| "ws_step loc (Errored k) c = c"

fun ws_run :: "location \<Rightarrow> ws_event list \<Rightarrow> ws_state \<Rightarrow> ws_state" where
  "ws_run loc [] c = c"
| "ws_run loc (e # es) c = ws_run loc es (ws_step loc e c)"

text \<open>
  The only socket that can be open is the one \<^verbatim>\<open>ws\<close> refers to, and without one the
  manager is marked disconnected.
\<close>

definition ws_inv :: "ws_state \<Rightarrow> bool" where
  "ws_inv c =
     (case ws c of
        None \<Rightarrow> open_sockets c = [] \<and> \<not> isConnected c
      | Some sk \<Rightarrow> open_sockets c = [] \<or> open_sockets c = [sock_id sk])"

section \<open>The cursor of the LLM call panel\<close>

text \<open>
  The script of the panel that shows one LLM call at a time. The record of the call that
  the server returns carries the cursor metadata; of its other fields only the full
  response is kept here.
\<close>

record llm_detail =
  d_index :: int
  d_total_count :: int
  d_has_prev :: bool
  d_has_next :: bool
  d_full_response :: string

record cursor =
  loading_call :: bool
  currentCall :: "llm_detail option"
  currentIndex :: int
  totalCount :: int
  hasPrev :: bool
  hasNext :: bool
  expandedMsgs :: "nat set"
  responseExpanded :: bool

definition resetExpandState :: "cursor \<Rightarrow> cursor" where
  "resetExpandState cu = cu\<lparr>expandedMsgs := {}, responseExpanded := False\<rparr>"

text \<open>
  \<^verbatim>\<open>fetchLLMCall(callId)\<close> up to its suspension: nothing at all without a project id or
  a call id; otherwise the loading flag is raised, the expansion state is reset, and the
  request for the URL returned is sent.
\<close>

definition fetchLLMCall_begin :: "string \<Rightarrow> string \<Rightarrow> cursor \<Rightarrow> cursor \<times> string option" where
  "fetchLLMCall_begin projectId callId cu =
     (if projectId = [] \<or> callId = [] then (cu, None)
      else (resetExpandState (cu\<lparr>loading_call := True\<rparr>),
            Some (''/api/projects/'' @ projectId @ ''/llm-calls/'' @ callId)))"

text \<open>
  \<^verbatim>\<open>fetchLLMCall\<close> after its suspension: a successful answer that parses moves the
  cursor; anything else is logged; the loading flag is lowered either way.
\<close>

definition fetchLLMCall_settle :: "llm_detail fetch_result \<Rightarrow> cursor \<Rightarrow> cursor" where
  "fetchLLMCall_settle r cu =
     (case r of
        Response True status err (Some d) \<Rightarrow>
          cu\<lparr>currentCall := Some d, currentIndex := d_index d, totalCount := d_total_count d,
             hasPrev := d_has_prev d, hasNext := d_has_next d, loading_call := False\<rparr>
      | _ \<Rightarrow> cu\<lparr>loading_call := False\<rparr>)"



definition goToLatest :: "string \<Rightarrow> cursor \<Rightarrow> cursor \<times> string option" where
  "goToLatest projectId cu =
     (if totalCount cu > 0
      then fetchLLMCall_begin projectId (padStart 4 CHR ''0'' (String_of (totalCount cu))) cu
      else (cu, None))"



section \<open>Sample values\<close>

text \<open>Concrete states and frames, on which the theorems below are instantiated.\<close>

definition employee_alice :: employee where
  "employee_alice = \<lparr>e_name = ''Alice'', e_profile = ''Engineer'', e_is_idle = True, e_current_action = []\<rparr>"

definition employee_bob :: employee where
  "employee_bob = \<lparr>e_name = ''Bob'', e_profile = ''Architect'', e_is_idle = True, e_current_action = []\<rparr>"

definition project_P1 :: project where
  "project_P1 = \<lparr>p_id = ''P1'', p_name = ''snake'', p_idea = ''write a snake game'',
     p_investment = 3, p_n_round = 5, p_status = ''running'', p_total_cost = 1,
     p_employees = Some [employee_alice, employee_bob], p_output_path = None\<rparr>"

definition project_P0 :: project where
  "project_P0 = \<lparr>p_id = ''P0'', p_name = ''old'', p_idea = ''2048'',
     p_investment = 3, p_n_round = 5, p_status = ''stopped'', p_total_cost = 0,
     p_employees = None, p_output_path = None\<rparr>"

definition store_P1 :: store where
  "store_P1 = \<lparr>projects = [project_P0, project_P1\<lparr>p_employees := None\<rparr>],
     currentProjectId = Some ''P1'', currentProject = Some project_P1, loading = False,
     messages = [], thinkingLogs = [], llmCalls = [], toolUsages = []\<rparr>"

definition store_init :: store where
  "store_init = \<lparr>projects = [], currentProjectId = None, currentProject = None, loading = False,
     messages = [], thinkingLogs = [], llmCalls = [], toolUsages = []\<rparr>"

definition env0 :: env where
  "env0 = \<lparr>now_iso = ''2025-01-01T00:00:00.000Z'', now_ms = 1735689600000, random = 1/2\<rparr>"


definition status_bob_coding :: agent_status_in where
  "status_bob_coding = \<lparr>ai_agent_name = ''Bob'', ai_status = ''working'', ai_action = Some ''coding''\<rparr>"

definition status_carol_coding :: agent_status_in where
  "status_carol_coding = \<lparr>ai_agent_name = ''Carol'', ai_status = ''working'', ai_action = Some ''coding''\<rparr>"


definition clock0 :: "nat \<Rightarrow> env" where
  "clock0 k = env0"

definition response_quota :: "'a fetch_result" where
  "response_quota = Response False 429 (Some (Some ''quota exceeded'')) None"

definition location0 :: location where
  "location0 = \<lparr>loc_protocol = ''http:'', loc_host = ''localhost:8000''\<rparr>"




section \<open>Properties of the project store and the event router\<close>

subsection \<open>Updating the first match of a list\<close>

lemma update_first_never: "(\<And>x. x \<in> set xs \<Longrightarrow> \<not> P x) \<Longrightarrow> update_first P f xs = xs"
  by (induction xs) auto



lemma update_first_split:
  "(\<And>x. x \<in> set xs \<Longrightarrow> \<not> P x) \<Longrightarrow> P y \<Longrightarrow>
   update_first P f (xs @ y # ys) = xs @ f y # ys"
  by (induction xs) auto

subsection \<open>What the cost and status mutations touch\<close>










subsection \<open>Cost events\<close>



subsection \<open>Clearing the telemetry\<close>

text \<open>
  Claim C2. \<^verbatim>\<open>clearMessages()\<close> empties the four telemetry sequences (messages, thinking
  log, LLM calls, tool usages) and leaves the focused project, with its status, total cost
  and employees, as well as the focus id, the summary list and the loading flag, as they
  were.
\<close>

theorem clearMessages_keeps_project:
  "messages (clearMessages s) = [] \<and> thinkingLogs (clearMessages s) = []
   \<and> llmCalls (clearMessages s) = [] \<and> toolUsages (clearMessages s) = []
   \<and> currentProject (clearMessages s) = currentProject s
   \<and> currentProjectId (clearMessages s) = currentProjectId s
   \<and> projects (clearMessages s) = projects s
   \<and> loading (clearMessages s) = loading s"
  by (simp add: clearMessages_def)

subsection \<open>Agent status events\<close>

text \<open>
  Claim C3. An \<^verbatim>\<open>agent_status\<close> frame whose agent name is not in the focused project's
  roster (or that arrives when there is no focused project or no roster) leaves the whole
  store as it was and starts no request: no employee is inserted. When the name is in the
  roster, the first employee of that name gets \<^verbatim>\<open>is_idle\<close> set to whether the status is
  \<^verbatim>\<open>idle\<close> and \<^verbatim>\<open>current_action\<close> set to the action (the empty string when there is
  none); its other fields, every other employee, the order of the roster and the rest of the
  store are unchanged.
\<close>

theorem agent_status_updates_in_place:
  "(currentProject s = None
      \<or> (\<exists>p. currentProject s = Some p \<and> p_employees p = None)
      \<or> (\<exists>p es. currentProject s = Some p \<and> p_employees p = Some es
            \<and> ai_agent_name d \<notin> e_name ` set es)
     \<longrightarrow> handleMessage js clock (AgentStatus d) s = (s, []))
   \<and> (currentProject s = Some p \<and> p_employees p = Some (xs @ e # ys)
        \<and> ai_agent_name d \<notin> e_name ` set xs \<and> e_name e = ai_agent_name d
     \<longrightarrow> handleMessage js clock (AgentStatus d) s =
          (s\<lparr>currentProject := Some (p\<lparr>p_employees := Some
              (xs @ e\<lparr>e_is_idle := (ai_status d = ''idle''),
                         e_current_action := or_else (ai_action d) []\<rparr> # ys)\<rparr>)\<rparr>, []))"
proof (intro conjI impI)
  assume "currentProject s = None
      \<or> (\<exists>p. currentProject s = Some p \<and> p_employees p = None)
      \<or> (\<exists>p es. currentProject s = Some p \<and> p_employees p = Some es
            \<and> ai_agent_name d \<notin> e_name ` set es)"
  then show "handleMessage js clock (AgentStatus d) s = (s, [])"
  proof (elim disjE exE conjE)
    fix p es
    assume p: "currentProject s = Some p" "p_employees p = Some es"
      and absent: "ai_agent_name d \<notin> e_name ` set es"
    from absent have "\<And>x. x \<in> set es \<Longrightarrow> e_name x \<noteq> ai_agent_name d"
      by force
    then have "update_first (\<lambda>e. e_name e = ai_agent_name d)
        (\<lambda>e. e\<lparr>e_is_idle := (ai_status d = ''idle''),
               e_current_action := or_else (ai_action d) []\<rparr>) es = es"
      by (rule update_first_never)
    with p show ?thesis by (simp add: updateEmployeeStatus_def)
  qed (simp_all add: updateEmployeeStatus_def)
next
  assume h: "currentProject s = Some p \<and> p_employees p = Some (xs @ e # ys)
        \<and> ai_agent_name d \<notin> e_name ` set xs \<and> e_name e = ai_agent_name d"
  then have "\<And>x. x \<in> set xs \<Longrightarrow> e_name x \<noteq> ai_agent_name d"
    by force
  with h have "update_first (\<lambda>e. e_name e = ai_agent_name d)
        (\<lambda>e. e\<lparr>e_is_idle := (ai_status d = ''idle''),
               e_current_action := or_else (ai_action d) []\<rparr>) (xs @ e # ys)
      = xs @ e\<lparr>e_is_idle := (ai_status d = ''idle''),
                  e_current_action := or_else (ai_action d) []\<rparr> # ys"
    by (intro update_first_split) simp_all
  with h show "handleMessage js clock (AgentStatus d) s =
          (s\<lparr>currentProject := Some (p\<lparr>p_employees := Some
              (xs @ e\<lparr>e_is_idle := (ai_status d = ''idle''),
                         e_current_action := or_else (ai_action d) []\<rparr> # ys)\<rparr>)\<rparr>, [])"
    by (simp add: updateEmployeeStatus_def)
qed

text \<open>
  An instance: the roster is Alice and Bob; a frame for Carol changes nothing, a frame for
  Bob changes Bob's two fields.
\<close>

theorem agent_status_updates_in_place_witness:
  "handleMessage id clock0 (AgentStatus status_carol_coding) store_P1 = (store_P1, [])
   \<and> handleMessage id clock0 (AgentStatus status_bob_coding) store_P1 =
        (store_P1\<lparr>currentProject := Some (project_P1\<lparr>p_employees := Some
           [employee_alice,
            employee_bob\<lparr>e_is_idle := False, e_current_action := ''coding''\<rparr>]\<rparr>)\<rparr>, [])"
  using agent_status_updates_in_place [of store_P1 status_carol_coding id clock0
          project_P1 "[employee_alice]" employee_bob "[]"]
        agent_status_updates_in_place [of store_P1 status_bob_coding id clock0
          project_P1 "[employee_alice]" employee_bob "[]"]
  by (simp add: store_P1_def project_P1_def employee_alice_def employee_bob_def
        status_carol_coding_def status_bob_coding_def or_else_def)

subsection \<open>Tool usage events\<close>

text \<open>
  Claim C4. A \<^verbatim>\<open>tool_usage\<close> frame appends exactly one record to the tool usages, made of
  the frame's fields, and exactly one entry to the thinking log, of type \<^verbatim>\<open>tool\<close> and for
  the same agent: both sequences keep what they held and grow by one.
\<close>

theorem tool_usage_appends_one_of_each:
  "toolUsages (fst (handleMessage js clock (ToolUsage u) s)) = toolUsages s @
       [\<lparr>u_agent_name = ui_agent_name u, u_tool_name = ui_tool_name u, u_args = ui_args u,
         u_result = ui_result u, u_id = now_ms (clock 0) + random (clock 0),
         u_timestamp = now_iso (clock 0)\<rparr>]
   \<and> (\<exists>t. thinkingLogs (fst (handleMessage js clock (ToolUsage u) s)) = thinkingLogs s @ [t]
          \<and> t_type t = ''tool'' \<and> t_agent_name t = ui_agent_name u)
   \<and> length (toolUsages (fst (handleMessage js clock (ToolUsage u) s)))
        = Suc (length (toolUsages s))
   \<and> length (thinkingLogs (fst (handleMessage js clock (ToolUsage u) s)))
        = Suc (length (thinkingLogs s))"
  by (simp add: addToolUsage_def addThinking_def or_else_def)

subsection \<open>Project status events\<close>



subsection \<open>Mutations without a focused project\<close>

text \<open>
  Claim C10. When no project is in focus (\<^verbatim>\<open>currentProject\<close> and \<^verbatim>\<open>currentProjectId\<close>
  are both null), each of \<^verbatim>\<open>updateEmployees\<close>, \<^verbatim>\<open>updateStatus\<close>, \<^verbatim>\<open>updateCost\<close>
  and \<^verbatim>\<open>updateEmployeeStatus\<close> returns the store it was given. The four functions
  have no failing branch: with \<^verbatim>\<open>currentProject\<close> null every property access on it is
  guarded, and no project of the summary list has the id null.
\<close>

theorem unfocused_mutations_are_noops:
  assumes "currentProject s = None" and "currentProjectId s = None"
  shows "updateEmployees es s = s \<and> updateStatus st s = s \<and> updateCost c s = s
         \<and> updateEmployeeStatus d s = s"
  using assms
  by (simp add: updateEmployees_def updateStatus_def updateCost_def updateEmployeeStatus_def
        update_first_never)

text \<open>An instance: a store with one project in the summary list and none in focus.\<close>

theorem unfocused_mutations_are_noops_witness:
  "currentProject (store_init\<lparr>projects := [project_P0]\<rparr>) = None
   \<and> currentProjectId (store_init\<lparr>projects := [project_P0]\<rparr>) = None
   \<and> updateEmployees (Some [employee_alice]) (store_init\<lparr>projects := [project_P0]\<rparr>)
       = store_init\<lparr>projects := [project_P0]\<rparr>
   \<and> updateStatus ''running'' (store_init\<lparr>projects := [project_P0]\<rparr>)
       = store_init\<lparr>projects := [project_P0]\<rparr>
   \<and> updateCost 5 (store_init\<lparr>projects := [project_P0]\<rparr>)
       = store_init\<lparr>projects := [project_P0]\<rparr>
   \<and> updateEmployeeStatus status_bob_coding (store_init\<lparr>projects := [project_P0]\<rparr>)
       = store_init\<lparr>projects := [project_P0]\<rparr>"
  using unfocused_mutations_are_noops [of "store_init\<lparr>projects := [project_P0]\<rparr>"
          "Some [employee_alice]" "''running''" 5 status_bob_coding]
  by (simp add: store_init_def)


section \<open>Properties of the notification store\<close>

subsection \<open>Notifications without a timer stay\<close>

lemma remove_first_keeps: "x \<in> set xs \<Longrightarrow> \<not> P x \<Longrightarrow> x \<in> set (remove_first P xs)"
  by (induction xs) auto

lemma never_timed_add: "never_timed x n \<Longrightarrow> never_timed x (snd (add ev msg ty duration n))"
  by (auto simp: never_timed_def add_def Let_def)

lemma never_timed_fire:
  assumes "never_timed x n"
  shows "never_timed x (fire_timer k n)"
proof (cases "k < length (timers n)")
  case False
  with assms show ?thesis by (simp add: fire_timer_def)
next
  case True
  then have "timers n ! k \<in> set (timers n)" by simp
  with assms have neq: "tm_id (timers n ! k) \<noteq> n_id x"
    by (auto simp: never_timed_def list_all_iff)
  from assms have x: "x \<in> set (notifications n)"
    by (simp add: never_timed_def)
  with neq have "x \<in> set (remove_first (\<lambda>y. n_id y = tm_id (timers n ! k)) (notifications n))"
    by (intro remove_first_keeps) auto
  moreover have "\<forall>t \<in> set (take k (timers n) @ drop (Suc k) (timers n)). tm_id t \<noteq> n_id x"
    using assms by (auto simp: never_timed_def list_all_iff dest: in_set_takeD in_set_dropD)
  ultimately show ?thesis
    using True assms
    by (auto simp: never_timed_def fire_timer_def remove_notification_def list_all_iff)
qed

lemma never_timed_run: "never_timed x n \<Longrightarrow> never_timed x (notif_run steps n)"
proof (induction steps arbitrary: n)
  case Nil
  then show ?case by simp
next
  case (Cons st steps)
  then show ?case by (cases st) (simp_all add: never_timed_add never_timed_fire)
qed

lemma add_untimed:
  assumes "d \<le> 0" "timers_known n"
  shows "never_timed
           \<lparr>n_id = idCounter n + 1, n_message = msg,
            n_type = (case ty of None \<Rightarrow> ''info'' | Some t \<Rightarrow> t), n_timestamp = now_ms ev\<rparr>
           (snd (add ev msg ty (Some d) n))"
  using assms by (auto simp: never_timed_def add_def Let_def timers_known_def list_all_iff)

lemma timers_known_add: "timers_known n \<Longrightarrow> timers_known (snd (add ev msg ty duration n))"
  by (auto simp: timers_known_def add_def Let_def list_all_iff)

lemma timers_known_fire: "timers_known n \<Longrightarrow> timers_known (fire_timer k n)"
  by (auto simp: timers_known_def fire_timer_def remove_notification_def list_all_iff
           dest: in_set_takeD in_set_dropD)

lemma timers_known_remove: "timers_known n \<Longrightarrow> timers_known (remove_notification i n)"
  by (simp add: timers_known_def remove_notification_def)

lemma timers_known_run: "timers_known n \<Longrightarrow> timers_known (notif_run steps n)"
proof (induction steps arbitrary: n)
  case Nil
  then show ?case by simp
next
  case (Cons st steps)
  then show ?case by (cases st) (simp_all add: timers_known_add timers_known_fire)
qed

lemma timers_known_init: "timers_known notif_init"
  by (simp add: timers_known_def notif_init_def)

text \<open>
  Claim C8. A notification added with a duration that is zero or negative registers no
  timer, and from a state where every pending timer is for an id already handed out, it is
  still in the list after any run of further additions and timer firings: nothing but an
  explicit \<^verbatim>\<open>remove\<close> takes it out. \<^verbatim>\<open>error(msg)\<close> without a duration adds a
  notification of type \<^verbatim>\<open>error\<close> and registers its removal after 6000 ms;
  \<^verbatim>\<open>success\<close>, \<^verbatim>\<open>warning\<close>, \<^verbatim>\<open>info\<close> and \<^verbatim>\<open>add\<close> without a duration register it
  after 4000 ms.
\<close>

theorem notification_expiry:
  "(d \<le> 0 \<longrightarrow> timers (snd (add ev msg ty (Some d) n)) = timers n)
   \<and> (d \<le> 0 \<and> timers_known n \<longrightarrow>
        \<lparr>n_id = idCounter n + 1, n_message = msg,
         n_type = (case ty of None \<Rightarrow> ''info'' | Some t \<Rightarrow> t), n_timestamp = now_ms ev\<rparr>
        \<in> set (notifications (notif_run steps (snd (add ev msg ty (Some d) n)))))
   \<and> error ev msg None n =
        (idCounter n + 1,
         n\<lparr>idCounter := idCounter n + 1,
           notifications := notifications n @
             [\<lparr>n_id = idCounter n + 1, n_message = msg, n_type = ''error'',
               n_timestamp = now_ms ev\<rparr>],
           timers := timers n @ [\<lparr>tm_delay = 6000, tm_id = idCounter n + 1\<rparr>]\<rparr>)
   \<and> timers (snd (success ev msg None n)) = timers n @ [\<lparr>tm_delay = 4000, tm_id = idCounter n + 1\<rparr>]
   \<and> timers (snd (warning ev msg None n)) = timers n @ [\<lparr>tm_delay = 4000, tm_id = idCounter n + 1\<rparr>]
   \<and> timers (snd (info ev msg None n)) = timers n @ [\<lparr>tm_delay = 4000, tm_id = idCounter n + 1\<rparr>]
   \<and> timers (snd (add ev msg ty None n)) = timers n @ [\<lparr>tm_delay = 4000, tm_id = idCounter n + 1\<rparr>]"
proof (intro conjI impI)
  assume "d \<le> 0 \<and> timers_known n"
  then have "never_timed
      \<lparr>n_id = idCounter n + 1, n_message = msg,
       n_type = (case ty of None \<Rightarrow> ''info'' | Some t \<Rightarrow> t), n_timestamp = now_ms ev\<rparr>
      (notif_run steps (snd (add ev msg ty (Some d) n)))"
    by (intro never_timed_run add_untimed) simp_all
  then show "\<lparr>n_id = idCounter n + 1, n_message = msg,
         n_type = (case ty of None \<Rightarrow> ''info'' | Some t \<Rightarrow> t), n_timestamp = now_ms ev\<rparr>
        \<in> set (notifications (notif_run steps (snd (add ev msg ty (Some d) n))))"
    by (simp add: never_timed_def)
qed (simp_all add: add_def error_def success_def warning_def info_def Let_def)

text \<open>
  An instance: \<^verbatim>\<open>add('saved', 'info', 0)\<close> on the initial store, then an error
  notification whose timer fires; the first notification is the one that remains.
\<close>

theorem notification_expiry_witness:
  "timers_known notif_init
   \<and> timers (snd (add env0 ''saved'' (Some ''info'') (Some 0) notif_init)) = []
   \<and> \<lparr>n_id = 1, n_message = ''saved'', n_type = ''info'', n_timestamp = now_ms env0\<rparr>
       \<in> set (notifications (notif_run [Add env0 ''oops'' (Some ''error'') None, Fire 0, Fire 0]
                (snd (add env0 ''saved'' (Some ''info'') (Some 0) notif_init))))
   \<and> notifications (notif_run [Add env0 ''oops'' (Some ''error'') None, Fire 0, Fire 0]
                (snd (add env0 ''saved'' (Some ''info'') (Some 0) notif_init)))
       = [\<lparr>n_id = 1, n_message = ''saved'', n_type = ''info'', n_timestamp = now_ms env0\<rparr>]"
  using notification_expiry [of 0 env0 "''saved''" "Some ''info''" notif_init
          "[Add env0 ''oops'' (Some ''error'') None, Fire 0, Fire 0]"]
  by (simp add: timers_known_def notif_init_def add_def Let_def fire_timer_def
        remove_notification_def)


section \<open>Properties of the project actions\<close>

subsection \<open>Failing requests\<close>

lemma error_notifications:
  "notifications (snd (error ev msg None n)) = notifications n @
     [\<lparr>n_id = idCounter n + 1, n_message = msg, n_type = ''error'', n_timestamp = now_ms ev\<rparr>]"
  by (simp add: error_def add_def Let_def)

text \<open>
  Claim C6, as the code has it. When the request of \<^verbatim>\<open>fetchProject\<close>,
  \<^verbatim>\<open>createProject\<close>, \<^verbatim>\<open>updateProject\<close>, \<^verbatim>\<open>deleteProject\<close>, \<^verbatim>\<open>startProject\<close> or
  \<^verbatim>\<open>stopProject\<close> fails, the action adds exactly one notification, of type \<^verbatim>\<open>error\<close>
  and with the action's own fixed text, whatever the failure says, and throws the failure
  on to its caller. When the request of a list refresh fails, also one started by a
  \<^verbatim>\<open>project_status\<close> frame, \<^verbatim>\<open>fetchProjects\<close> adds exactly one notification of type
  \<^verbatim>\<open>error\<close> with its own fixed text as well, lowers the loading flag, and throws
  nothing.
\<close>

theorem failing_actions_notify_once:
  "(request rp = Inl e \<longrightarrow>
      fst (fetchProject ev pid rp (s, n)) = Inl e
      \<and> notifications (snd (snd (fetchProject ev pid rp (s, n)))) = notifications n @
          [\<lparr>n_id = idCounter n + 1, n_message = msg_fetchProject_failed, n_type = ''error'',
            n_timestamp = now_ms ev\<rparr>])
   \<and> (request rp = Inl e \<longrightarrow>
      fst (createProject clock rp rl (s, n)) = Inl e
      \<and> notifications (snd (snd (createProject clock rp rl (s, n)))) = notifications n @
          [\<lparr>n_id = idCounter n + 1, n_message = msg_createProject_failed, n_type = ''error'',
            n_timestamp = now_ms (clock 0)\<rparr>])
   \<and> (request rj = Inl e \<longrightarrow>
      fst (updateProject clock pid rj rp (s, n)) = Inl e
      \<and> notifications (snd (snd (updateProject clock pid rj rp (s, n)))) = notifications n @
          [\<lparr>n_id = idCounter n + 1, n_message = msg_updateProject_failed, n_type = ''error'',
            n_timestamp = now_ms (clock 0)\<rparr>])
   \<and> (request rj = Inl e \<longrightarrow>
      fst (deleteProject clock pid rj rl (s, n)) = Inl e
      \<and> notifications (snd (snd (deleteProject clock pid rj rl (s, n)))) = notifications n @
          [\<lparr>n_id = idCounter n + 1, n_message = msg_deleteProject_failed, n_type = ''error'',
            n_timestamp = now_ms (clock 0)\<rparr>])
   \<and> (request rj = Inl e \<longrightarrow>
      fst (startProject ev pid rj (s, n)) = Inl e
      \<and> notifications (snd (snd (startProject ev pid rj (s, n)))) = notifications n @
          [\<lparr>n_id = idCounter n + 1, n_message = msg_startProject_failed, n_type = ''error'',
            n_timestamp = now_ms ev\<rparr>])
   \<and> (request rj = Inl e \<longrightarrow>
      fst (stopProject ev pid rj (s, n)) = Inl e
      \<and> notifications (snd (snd (stopProject ev pid rj (s, n)))) = notifications n @
          [\<lparr>n_id = idCounter n + 1, n_message = msg_stopProject_failed, n_type = ''error'',
            n_timestamp = now_ms ev\<rparr>])
   \<and> (request rl = Inl e \<longrightarrow>
      fetchProjects_settle ev rl (s, n) =
        (s\<lparr>loading := False\<rparr>, snd (error ev msg_fetchProjects_failed None n))
      \<and> notifications (snd (fetchProjects_settle ev rl (s, n))) = notifications n @
          [\<lparr>n_id = idCounter n + 1, n_message = msg_fetchProjects_failed, n_type = ''error'',
            n_timestamp = now_ms ev\<rparr>])"
  by (simp add: fetchProject_def createProject_def updateProject_def deleteProject_def
        startProject_def stopProject_def fetchProjects_settle_def error_notifications Let_def)

text \<open>
  An instance: the server answers 429 with the detail \<^verbatim>\<open>quota exceeded\<close>; the detail is
  in the error thrown, not in the notification.
\<close>

theorem failing_actions_notify_once_witness:
  "request (response_quota :: project fetch_result) = Inl (Error ''quota exceeded'')
   \<and> request (response_quota :: json fetch_result) = Inl (Error ''quota exceeded'')
   \<and> request (response_quota :: project list fetch_result) = Inl (Error ''quota exceeded'')
   \<and> fst (fetchProject env0 ''P1'' response_quota (store_P1, notif_init))
       = Inl (Error ''quota exceeded'')
   \<and> map n_message (notifications (snd (snd
         (fetchProject env0 ''P1'' response_quota (store_P1, notif_init)))))
       = [msg_fetchProject_failed]
   \<and> fst (createProject clock0 response_quota response_quota (store_P1, notif_init))
       = Inl (Error ''quota exceeded'')
   \<and> map n_message (notifications (snd (snd
         (createProject clock0 response_quota response_quota (store_P1, notif_init)))))
       = [msg_createProject_failed]
   \<and> fst (updateProject clock0 ''P1'' response_quota response_quota (store_P1, notif_init))
       = Inl (Error ''quota exceeded'')
   \<and> map n_message (notifications (snd (snd
         (updateProject clock0 ''P1'' response_quota response_quota (store_P1, notif_init)))))
       = [msg_updateProject_failed]
   \<and> fst (deleteProject clock0 ''P1'' response_quota response_quota (store_P1, notif_init))
       = Inl (Error ''quota exceeded'')
   \<and> map n_message (notifications (snd (snd
         (deleteProject clock0 ''P1'' response_quota response_quota (store_P1, notif_init)))))
       = [msg_deleteProject_failed]
   \<and> fst (startProject env0 ''P1'' response_quota (store_P1, notif_init))
       = Inl (Error ''quota exceeded'')
   \<and> map n_message (notifications (snd (snd
         (startProject env0 ''P1'' response_quota (store_P1, notif_init)))))
       = [msg_startProject_failed]
   \<and> fst (stopProject env0 ''P1'' response_quota (store_P1, notif_init))
       = Inl (Error ''quota exceeded'')
   \<and> map n_type (notifications (snd (snd
         (stopProject env0 ''P1'' response_quota (store_P1, notif_init)))))
       = [''error'']
   \<and> map n_type (notifications (snd
         (fetchProjects_settle env0 response_quota (store_P1, notif_init))))
       = [''error'']"
proof -
  have p: "request (response_quota :: project fetch_result) = Inl (Error ''quota exceeded'')"
    and j: "request (response_quota :: json fetch_result) = Inl (Error ''quota exceeded'')"
    and l: "request (response_quota :: project list fetch_result) = Inl (Error ''quota exceeded'')"
    by (simp_all add: response_quota_def request_def or_else_def)
  from failing_actions_notify_once [of response_quota "Error ''quota exceeded''" env0 "''P1''"
      store_P1 notif_init clock0 response_quota response_quota] p j l
  show ?thesis by (simp add: notif_init_def error_notifications)
qed

text \<open>
  Claim C6, as stated, says that a failing list refresh started by a status frame is
  silent. It is not: a \<^verbatim>\<open>project_status\<close> frame leaves the list request in flight, and when
  that request is rejected the notification list, empty before, holds an error
  notification.
\<close>

theorem silent_refresh_counterexample:
  "snd (handleMessage id clock0 (ProjectStatus ''running'' ''started'' None None) store_P1)
     = [GetProjects]
   \<and> request (Rejected ''Failed to fetch'' :: project list fetch_result)
       = Inl (TypeError ''Failed to fetch'')
   \<and> notifications notif_init = []
   \<and> notifications (snd (fetchProjects_settle env0 (Rejected ''Failed to fetch'')
        (fst (handleMessage id clock0 (ProjectStatus ''running'' ''started'' None None) store_P1),
         notif_init)))
     = [\<lparr>n_id = 1, n_message = msg_fetchProjects_failed, n_type = ''error'',
         n_timestamp = now_ms env0\<rparr>]"
  by (simp add: fetchProjects_settle_def request_def error_def add_def Let_def notif_init_def)


text \<open>
  Not part of the claim: when \<^verbatim>\<open>updateProject\<close> succeeds on the focused project and the
  reload of the project then fails, \<^verbatim>\<open>fetchProject\<close> and \<^verbatim>\<open>updateProject\<close> each add
  their error notification, so that one failure is notified twice.
\<close>

lemma updateProject_reload_failure:
  "request r1 = Inr b \<Longrightarrow> request r2 = Inl e \<Longrightarrow> currentProjectId s = Some pid \<Longrightarrow>
   fst (updateProject clock pid r1 r2 (s, n)) = Inl e
   \<and> map n_message (notifications (snd (snd (updateProject clock pid r1 r2 (s, n)))))
       = map n_message (notifications n) @ [msg_fetchProject_failed, msg_updateProject_failed]"
  by (simp add: updateProject_def fetchProject_def Let_def error_def add_def)


section \<open>Properties of the connection manager\<close>

subsection \<open>One socket at a time\<close>

lemma ws_inv_disconnect: "ws_inv c \<Longrightarrow> ws_inv (disconnect c)"
  by (auto simp: ws_inv_def disconnect_def Let_def split: option.splits)

lemma disconnect_closes_all: "ws_inv c \<Longrightarrow> open_sockets (disconnect c) = []"
  by (auto simp: ws_inv_def disconnect_def Let_def split: option.splits)

lemma ws_inv_connect: "ws_inv c \<Longrightarrow> ws_inv (connect loc pid c)"
  using disconnect_closes_all [of c]
  by (simp add: ws_inv_def connect_def Let_def)

lemma ws_inv_step: "ws_inv c \<Longrightarrow> ws_inv (ws_step loc e c)"
proof (cases e)
  case (Opened k)
  assume "ws_inv c"
  with Opened show ?thesis by (auto simp: ws_inv_def split: option.splits)
next
  case (Closed k)
  assume "ws_inv c"
  with Closed show ?thesis by (auto simp: ws_inv_def split: option.splits if_splits)
qed (simp_all add: ws_inv_connect ws_inv_disconnect)

lemma ws_inv_run: "ws_inv c \<Longrightarrow> ws_inv (ws_run loc es c)"
  by (induction es arbitrary: c) (simp_all add: ws_inv_step)

lemma ws_inv_init: "ws_inv ws_init"
  by (simp add: ws_inv_def ws_init_def)

lemma disconnect_idem: "disconnect (disconnect c) = disconnect c"
  by (simp add: disconnect_def Let_def split: option.splits)

text \<open>
  Claim C9. After any sequence of \<^verbatim>\<open>connect\<close> and \<^verbatim>\<open>disconnect\<close> calls, interleaved
  in any way with what the transport reports, at most one socket is open, and an open
  socket is the one \<^verbatim>\<open>ws\<close> refers to. \<^verbatim>\<open>disconnect\<close> leaves no socket open; \<^verbatim>\<open>connect\<close>
  tears the existing socket down first, so that the one it creates is the only one open.
  \<^verbatim>\<open>disconnect\<close> is idempotent and always ends with no socket and the flag
  disconnected; when there is no socket it returns the state it was given.
\<close>

theorem one_connection_at_a_time:
  "length (open_sockets (ws_run loc es ws_init)) \<le> 1
   \<and> (open_sockets (ws_run loc es ws_init) = []
        \<or> map_option (\<lambda>sk. [sock_id sk]) (ws (ws_run loc es ws_init))
            = Some (open_sockets (ws_run loc es ws_init)))
   \<and> open_sockets (disconnect (ws_run loc es ws_init)) = []
   \<and> open_sockets (connect loc pid (ws_run loc es ws_init))
        = [sockets_created (ws_run loc es ws_init)]
   \<and> disconnect (disconnect c) = disconnect c
   \<and> ws (disconnect c) = None \<and> \<not> isConnected (disconnect c)
   \<and> (ws (ws_run loc es ws_init) = None
        \<longrightarrow> disconnect (ws_run loc es ws_init) = ws_run loc es ws_init)"
proof -
  have inv: "ws_inv (ws_run loc es ws_init)"
    by (simp add: ws_inv_run ws_inv_init)
  then have closed: "open_sockets (disconnect (ws_run loc es ws_init)) = []"
    by (rule disconnect_closes_all)
  from inv have "length (open_sockets (ws_run loc es ws_init)) \<le> 1"
    by (auto simp: ws_inv_def split: option.splits)
  moreover from inv have "open_sockets (ws_run loc es ws_init) = []
        \<or> map_option (\<lambda>sk. [sock_id sk]) (ws (ws_run loc es ws_init))
            = Some (open_sockets (ws_run loc es ws_init))"
    by (auto simp: ws_inv_def split: option.splits)
  moreover from closed have "open_sockets (connect loc pid (ws_run loc es ws_init))
        = [sockets_created (ws_run loc es ws_init)]"
    by (simp add: connect_def Let_def) (simp add: disconnect_def Let_def split: option.splits)
  moreover have "ws (disconnect c) = None \<and> \<not> isConnected (disconnect c)"
    by (simp add: disconnect_def Let_def split: option.splits)
  moreover from inv have "ws (ws_run loc es ws_init) = None
        \<longrightarrow> disconnect (ws_run loc es ws_init) = ws_run loc es ws_init"
    by (auto simp: ws_inv_def disconnect_def)
  ultimately show ?thesis using closed disconnect_idem by blast
qed

text \<open>
  An instance: connecting to P2 while the socket for P1 is open leaves the socket for P2
  alone; disconnecting a second time changes nothing.
\<close>

theorem one_connection_at_a_time_witness:
  "open_sockets (ws_run location0 [Connect ''P1'', Opened 0, Connect ''P2''] ws_init) = [1]
   \<and> map_option sock_url (ws (ws_run location0 [Connect ''P1'', Opened 0, Connect ''P2''] ws_init))
       = Some ''ws://localhost:8000/ws/P2''
   \<and> ws (ws_run location0 [Connect ''P1'', Disconnect] ws_init) = None
   \<and> disconnect (ws_run location0 [Connect ''P1'', Disconnect] ws_init)
       = ws_run location0 [Connect ''P1'', Disconnect] ws_init"
  using one_connection_at_a_time [of location0 "[Connect ''P1'', Disconnect]" "''P1''" ws_init]
  by (simp add: ws_init_def connect_def disconnect_def Let_def location0_def)


section \<open>Properties of the cursor\<close>

subsection \<open>Decimal call ids\<close>










subsection \<open>Evaluating call ids\<close>





end
